theory Spec2Isabelle
  imports
    Complex_Main
    "HOL-Library.Log_Nat"
    "HOL-Library.Char_ord"
    "HOL-Library.List_Lexorder"
    "HOL-Library.Product_Lexorder"
    "HOL-Library.Monad_Syntax"
    "HOL-Library.AList"
    "HOL-Library.Multiset"
begin

chapter \<open>The ACS Subject-table fetcher (\<^verbatim>\<open>src/fetch_tables.py\<close>)\<close>

text \<open>
  A shallow embedding of \<^verbatim>\<open>fetch_tables.py\<close>: the value normalizer \<^verbatim>\<open>clean_num\<close>, the
  header decoder \<^verbatim>\<open>parse_headers_for_table\<close>, the schema registry, the record assembler
  \<^verbatim>\<open>build_records_for_row\<close>, the label attachment and the sort of \<^verbatim>\<open>main\<close>, and the retry
  loop of \<^verbatim>\<open>fetch_group_subject\<close>.

  Conventions of the embedding.
  \<^item> A Python \<^verbatim>\<open>str\<close> is a \<^typ>\<open>string\<close>; a \<^typ>\<open>char\<close> stands for the code point of the
    same number, so the model covers text in the range U+0000 to U+00FF.
  \<^item> A JSON cell of the API response (a string or \<^verbatim>\<open>null\<close>) is a \<^typ>\<open>string option\<close>, with
    \<^term>\<open>None\<close> for \<^verbatim>\<open>null\<close>.
  \<^item> A Python \<^verbatim>\<open>float\<close> is an IEEE binary64 number, kept as its integer mantissa and binary
    exponent; \<^verbatim>\<open>float(s)\<close> rounds the decimal numeral to the nearest such number, ties to even.
  \<^item> An exception that a function lets escape is a value of its result type.
\<close>

section \<open>Python values\<close>

datatype pyfloat =
    Finite int int  \<comment> \<open>\<^term>\<open>Finite m e\<close> is the number \<open>m * 2\<^sup>e\<close>\<close>
  | PosInf
  | NegInf
  | NaN

datatype pyval = PNone | PInt int | PFloat pyfloat | PStr string

datatype py_exn =
    ValueError
  | OverflowError
  | IndexError
  | AttributeError
  | TypeError
  | RequestException
  | HTTPError nat
  | RuntimeError string string "py_exn option"
    \<comment> \<open>\<^verbatim>\<open>RuntimeError(f"Failed to fetch {table} for tract {tract}: {last_err}")\<close>\<close>

text \<open>A cell of the API response, a Python dictionary with string keys (in insertion order).\<close>

type_synonym cell = "string option"

type_synonym pydict = "(string \<times> pyval) list"

text \<open>The exact value of a finite float.\<close>

fun valof :: "pyfloat \<Rightarrow> rat" where
  "valof (Finite m e) = of_int m * 2 powi e"
| "valof _ = 0"

section \<open>Strings\<close>

definition is_digit :: "char \<Rightarrow> bool" where
  "is_digit c = (c \<in> set ''0123456789'')"

definition digit_val :: "char \<Rightarrow> int" where
  "digit_val c = of_char c - 48"

text \<open>The value of a string of decimal digits, most significant digit first.\<close>

definition digits_val :: "string \<Rightarrow> int" where
  "digits_val ds = foldl (\<lambda>acc c. 10 * acc + digit_val c) 0 ds"

text \<open>
  \<^verbatim>\<open>str.strip()\<close> removes the leading and trailing characters that \<^verbatim>\<open>str.isspace\<close> accepts;
  below U+0100 these are U+0009 to U+000D, U+001C to U+0020, U+0085 and U+00A0.
\<close>

definition is_space :: "char \<Rightarrow> bool" where
  "is_space c = (of_char c \<in> {9, 10, 11, 12, 13, 28, 29, 30, 31, 32, 133, 160 :: int})"

definition strip :: "string \<Rightarrow> string" where
  "strip s = rev (dropWhile is_space (rev (dropWhile is_space s)))"

text \<open>ASCII lower-casing, as used by the case-insensitive match of \<^verbatim>\<open>inf\<close> and \<^verbatim>\<open>nan\<close>.\<close>

definition lower_char :: "char \<Rightarrow> char" where
  "lower_char c =
     (let n = of_char c :: int in if 65 \<le> n \<and> n \<le> 90 then char_of (n + 32) else c)"

section \<open>Floating point: \<^verbatim>\<open>float(s)\<close>, \<^verbatim>\<open>int(v)\<close> and the test against \<^verbatim>\<open>1e-9\<close>\<close>

text \<open>
  Rounding of the positive rational \<open>n / d\<close> to binary64, round-half-to-even, with gradual
  underflow (the least exponent of a unit in the last place is \<open>-1074\<close>) and overflow to
  infinity. The result is \<open>(m, e)\<close> for the number \<open>m * 2\<^sup>e\<close>, or \<^term>\<open>None\<close> on overflow.
\<close>

text \<open>The number of binary digits of a positive integer (\<^verbatim>\<open>int.bit_length\<close>).\<close>

function bit_length :: "int \<Rightarrow> int" where
  "bit_length n = (if n \<le> 0 then 0 else 1 + bit_length (n div 2))"
  by pat_completeness auto
termination
  by (relation "measure nat") auto

declare bit_length.simps [simp del]

text \<open>The comparison \<open>a * 2\<^sup>e < b * 2\<^sup>f\<close>, on integers.\<close>

definition dyadic_less :: "int \<Rightarrow> int \<Rightarrow> int \<Rightarrow> int \<Rightarrow> bool" where
  "dyadic_less a e b f = (if f \<le> e then a * 2 ^ nat (e - f) < b else a < b * 2 ^ nat (f - e))"

text \<open>
  \<open>\<lfloor>log\<^sub>2 (n / d)\<rfloor>\<close> for positive \<open>n\<close> and \<open>d\<close>: the difference \<open>k\<close> of the bit lengths,
  or \<open>k - 1\<close> when \<open>n / d < 2\<^sup>k\<close>.
\<close>

definition floor_log2 :: "int \<Rightarrow> int \<Rightarrow> int" where
  "floor_log2 n d =
     (let k = bit_length n - bit_length d
      in if dyadic_less n 0 d k then k - 1 else k)"

definition round_half_even :: "int \<Rightarrow> int \<Rightarrow> int" where
  "round_half_even num den =
     (let q = num div den; r = num mod den
      in if 2 * r < den then q
         else if den < 2 * r then q + 1
         else if even q then q else q + 1)"

definition round_binary64 :: "int \<Rightarrow> int \<Rightarrow> (int \<times> int) option" where
  "round_binary64 n d =
     (let ex = max (floor_log2 n d) (- 1022) - 52;
          m = (if 0 \<le> ex then round_half_even n (d * 2 ^ nat ex)
               else round_half_even (n * 2 ^ nat (- ex)) d);
          (m', ex') = (if m = 2 ^ 53 then (2 ^ 52, ex + 1) else (m, ex))
      in if 971 < ex' then None else Some (m', ex'))"

text \<open>The float nearest to \<open>sign * n / d\<close>, for \<open>0 \<le> n\<close> and \<open>0 < d\<close>.\<close>

definition binary64 :: "bool \<Rightarrow> int \<Rightarrow> int \<Rightarrow> pyfloat" where
  "binary64 neg n d =
     (if n = 0 then Finite 0 0
      else case round_binary64 n d of
             None \<Rightarrow> (if neg then NegInf else PosInf)
           | Some (m, e) \<Rightarrow> (if m = 0 then Finite 0 0 else Finite (if neg then - m else m) e))"

text \<open>
  \<^verbatim>\<open>float(s)\<close> first checks the underscores of \<open>s\<close> and removes them: an underscore is
  allowed only between two digits.
\<close>

fun drop_underscores :: "char \<Rightarrow> string \<Rightarrow> string option" where
  "drop_underscores prev [] = (if prev = CHR ''_'' then None else Some [])"
| "drop_underscores prev (c # cs) =
     (if c = CHR ''_'' then (if is_digit prev then drop_underscores c cs else None)
      else if prev = CHR ''_'' \<and> \<not> is_digit c then None
      else map_option ((#) c) (drop_underscores c cs))"

text \<open>
  Then \<^verbatim>\<open>float\<close> strips white space of its own: the C white space U+0009 to U+000D and U+0020,
  and, since non-ASCII white space is first replaced by a blank, U+0085 and U+00A0.
\<close>

definition is_float_space :: "char \<Rightarrow> bool" where
  "is_float_space c = (of_char c \<in> {9, 10, 11, 12, 13, 32, 133, 160 :: int})"

definition float_strip :: "string \<Rightarrow> string" where
  "float_strip s = rev (dropWhile is_float_space (rev (dropWhile is_float_space s)))"

definition split_sign :: "string \<Rightarrow> bool \<times> string" where
  "split_sign s =
     (case s of
        [] \<Rightarrow> (False, [])
      | c # t \<Rightarrow> if c = CHR ''-'' then (True, t) else if c = CHR ''+'' then (False, t) else (False, s))"

text \<open>
  The decimal numeral \<^verbatim>\<open>[digits][.digits][(e|E)[sign]digits]\<close> with at least one digit
  before the exponent: the result \<open>(M, E)\<close> stands for \<open>M * 10\<^sup>E\<close>.
\<close>

definition parse_decimal :: "string \<Rightarrow> (int \<times> int) option" where
  "parse_decimal s =
     (let ip = takeWhile is_digit s;
          r1 = dropWhile is_digit s;
          (fp, r2) = (case r1 of
                        [] \<Rightarrow> ([], [])
                      | c # t \<Rightarrow> if c = CHR ''.'' then (takeWhile is_digit t, dropWhile is_digit t)
                                 else ([], r1))
      in if ip = [] \<and> fp = [] then None
         else case r2 of
                [] \<Rightarrow> Some (digits_val (ip @ fp), - int (length fp))
              | c # t \<Rightarrow>
                  if c = CHR ''e'' \<or> c = CHR ''E'' then
                    (let (eneg, ds) = split_sign t
                     in if ds \<noteq> [] \<and> list_all is_digit ds
                        then Some (digits_val (ip @ fp),
                                   (if eneg then - digits_val ds else digits_val ds) - int (length fp))
                        else None)
                  else None)"

text \<open>\<^verbatim>\<open>float(s)\<close>; \<^term>\<open>None\<close> is the \<^verbatim>\<open>ValueError\<close> of a string that is no float literal.\<close>

definition py_float :: "string \<Rightarrow> pyfloat option" where
  "py_float s0 =
     (case drop_underscores (CHR 0x00) s0 of
        None \<Rightarrow> None
      | Some s1 \<Rightarrow>
          (let (neg, body) = split_sign (float_strip s1);
               lb = map lower_char body
           in if lb = ''inf'' \<or> lb = ''infinity'' then Some (if neg then NegInf else PosInf)
              else if lb = ''nan'' then Some NaN
              else case parse_decimal body of
                     None \<Rightarrow> None
                   | Some (M, E) \<Rightarrow>
                       Some (if 0 \<le> E then binary64 neg (M * 10 ^ nat E) 1
                             else binary64 neg M (10 ^ nat (- E)))))"

text \<open>
  \<^verbatim>\<open>int(v)\<close> truncates towards zero; it raises \<^verbatim>\<open>OverflowError\<close> on an infinity and
  \<^verbatim>\<open>ValueError\<close> on a NaN.
\<close>

fun py_int :: "pyfloat \<Rightarrow> py_exn + int" where
  "py_int (Finite m e) =
     Inr (if 0 \<le> e then m * 2 ^ nat e
          else if 0 \<le> m then m div 2 ^ nat (- e) else - ((- m) div 2 ^ nat (- e)))"
| "py_int PosInf = Inl OverflowError"
| "py_int NegInf = Inl OverflowError"
| "py_int NaN = Inl ValueError"

text \<open>The literal \<^verbatim>\<open>1e-9\<close> is the float nearest to \<open>10\<^sup>-\<^sup>9\<close>.\<close>

definition eps :: pyfloat where
  "eps = binary64 False 1 (10 ^ 9)"

text \<open>
  \<^verbatim>\<open>abs(v - int(v)) < 1e-9\<close> for a finite \<open>v = m * 2\<^sup>e\<close>. The difference of a float and its
  truncation has no bits above those of the float, so the subtraction is exact: it is \<open>0\<close> when
  \<open>0 \<le> e\<close>, and \<open>(|m| mod 2\<^sup>-\<^sup>e) * 2\<^sup>e\<close> in absolute value otherwise. The comparison with the
  float \<open>M * 2\<^sup>E\<close> of \<^verbatim>\<open>1e-9\<close> is made on integers, by \<^const>\<open>dyadic_less\<close>.
\<close>

definition frac_abs :: "int \<Rightarrow> int \<Rightarrow> int" where
  "frac_abs m e = (if 0 \<le> e then 0 else \<bar>m\<bar> mod 2 ^ nat (- e))"

fun near_int :: "pyfloat \<Rightarrow> bool" where
  "near_int (Finite m e) =
     (case eps of Finite M E \<Rightarrow> dyadic_less (frac_abs m e) e M E | _ \<Rightarrow> False)"
| "near_int _ = False"

section \<open>The value normalizer \<^verbatim>\<open>clean_num\<close>\<close>

definition SUPPRESS_CODES :: "string list" where
  "SUPPRESS_CODES =
     [''-555555555'', ''-555555555.0'',
      ''-888888888'', ''-888888888.0'',
      ''-666666666'', ''-666666666.0'',
      ''-222222222'', ''-222222222.0'']"

definition ANNOTATION_TOKENS :: "string list" where
  "ANNOTATION_TOKENS = ['''', ''(X)'', ''*****'', ''-'', ''**'']"

text \<open>The body of the \<^verbatim>\<open>try\<close>: \<^verbatim>\<open>v = float(s); return int(v) if abs(v - int(v)) < 1e-9 else v\<close>.\<close>

definition clean_num_try :: "string \<Rightarrow> py_exn + pyval" where
  "clean_num_try s =
     (case py_float s of
        None \<Rightarrow> Inl ValueError
      | Some v \<Rightarrow>
          (case py_int v of
             Inl err \<Rightarrow> Inl err
           | Inr i \<Rightarrow> Inr (if near_int v then PInt i else PFloat v)))"

text \<open>\<^verbatim>\<open>clean_num\<close>: the handler \<^verbatim>\<open>except Exception: return None\<close> catches whatever the body raises.\<close>

definition clean_num :: "string option \<Rightarrow> pyval" where
  "clean_num x =
     (case x of
        None \<Rightarrow> PNone
      | Some x' \<Rightarrow>
          (let s = strip x'
           in if s \<in> set SUPPRESS_CODES \<or> s \<in> set ANNOTATION_TOKENS then PNone
              else case clean_num_try s of Inl err \<Rightarrow> PNone | Inr r \<Rightarrow> r))"

section \<open>The header decoder \<^verbatim>\<open>parse_headers_for_table\<close>\<close>

text \<open>
  \<^verbatim>\<open>pat.match(h)\<close> for the pattern \<^verbatim>\<open>^(<table>)_C(\d{2})_(\d{3})([EM])$\<close>, where the table id is
  escaped and so matched literally. The pattern has a fixed length after the table id; \<^verbatim>\<open>$\<close>
  matches at the end of the string and also just before a line feed that ends the string.
  The result is the triple of the groups \<open>(group, line_no, kind)\<close>.
\<close>

definition match_header :: "string \<Rightarrow> string \<Rightarrow> (string \<times> string \<times> string) option" where
  "match_header table h =
     (let n = length table;
          group = take 2 (drop (n + 2) h);
          line_no = take 3 (drop (n + 5) h);
          kind = take 1 (drop (n + 8) h);
          rest = drop (n + 9) h
      in if take n h = table
            \<and> take 2 (drop n h) = ''_C''
            \<and> length group = 2 \<and> list_all is_digit group
            \<and> take 1 (drop (n + 4) h) = ''_''
            \<and> length line_no = 3 \<and> list_all is_digit line_no
            \<and> (kind = ''E'' \<or> kind = ''M'')
            \<and> (rest = [] \<or> rest = [CHR 0x0A])
         then Some (group, line_no, kind) else None)"

text \<open>\<^verbatim>\<open>h or ""\<close> for a header that is a string or \<^verbatim>\<open>None\<close>.\<close>

definition or_empty :: "cell \<Rightarrow> string" where
  "or_empty h = (case h of None \<Rightarrow> [] | Some s \<Rightarrow> s)"

text \<open>
  The loop over \<^verbatim>\<open>enumerate(headers)\<close>; the dictionary \<^verbatim>\<open>fieldmap\<close> is an association list, and
  \<^verbatim>\<open>fieldmap[key] = idx\<close> replaces the value of a key already present.
\<close>

type_synonym fieldmap = "((string \<times> string \<times> string) \<times> nat) list"

definition parse_headers_for_table :: "string \<Rightarrow> cell list \<Rightarrow> fieldmap" where
  "parse_headers_for_table table headers =
     foldl (\<lambda>fieldmap (idx, h).
              case match_header table (or_empty h) of
                Some key \<Rightarrow> AList.update key idx fieldmap
              | None \<Rightarrow> fieldmap)
           [] (enumerate 0 headers)"

section \<open>\<^verbatim>\<open>row_ids\<close>\<close>

text \<open>\<^verbatim>\<open>headers.index(colname)\<close>, with \<^term>\<open>None\<close> for the \<^verbatim>\<open>ValueError\<close> that \<^verbatim>\<open>safe_idx\<close> catches.\<close>

fun index_from :: "nat \<Rightarrow> 'a \<Rightarrow> 'a list \<Rightarrow> nat option" where
  "index_from i x [] = None"
| "index_from i x (y # ys) = (if y = x then Some i else index_from (Suc i) x ys)"

definition safe_idx :: "cell list \<Rightarrow> string \<Rightarrow> nat option" where
  "safe_idx headers colname = index_from 0 (Some colname) headers"

text \<open>\<^verbatim>\<open>row[i]\<close> for \<open>0 \<le> i\<close>: an \<^verbatim>\<open>IndexError\<close> beyond the end of the row.\<close>

definition row_get :: "cell list \<Rightarrow> nat \<Rightarrow> py_exn + cell" where
  "row_get row i = (if i < length row then Inr (row ! i) else Inl IndexError)"

definition cell_val :: "cell \<Rightarrow> pyval" where
  "cell_val c = (case c of None \<Rightarrow> PNone | Some s \<Rightarrow> PStr s)"

definition row_ids :: "cell list \<Rightarrow> cell list \<Rightarrow> py_exn + (pyval \<times> pyval)" where
  "row_ids headers row =
     (let gi = safe_idx headers ''GEO_ID'';
          ni = safe_idx headers ''NAME''
      in case (case gi of None \<Rightarrow> Inr None | Some i \<Rightarrow> row_get row i) of
           Inl err \<Rightarrow> Inl err
         | Inr g \<Rightarrow>
             (case (case ni of None \<Rightarrow> Inr None | Some i \<Rightarrow> row_get row i) of
                Inl err \<Rightarrow> Inl err
              | Inr n \<Rightarrow> Inr (cell_val g, cell_val n)))"

section \<open>The schemas\<close>

text \<open>
  A dictionary display \<^verbatim>\<open>{k1: e1, k2: e2, ...}\<close>: the values are evaluated from left to right,
  the first exception escapes, and a repeated key keeps its place and takes the later value.
\<close>

fun dict_display_from :: "pydict \<Rightarrow> (string \<times> (py_exn + pyval)) list \<Rightarrow> py_exn + pydict" where
  "dict_display_from acc [] = Inr acc"
| "dict_display_from acc ((k, r) # kvs) =
     (case r of Inl err \<Rightarrow> Inl err | Inr v \<Rightarrow> dict_display_from (AList.update k v acc) kvs)"

definition dict_display :: "(string \<times> (py_exn + pyval)) list \<Rightarrow> py_exn + pydict" where
  "dict_display kvs = dict_display_from [] kvs"

type_synonym getter = "string \<Rightarrow> string \<Rightarrow> string \<Rightarrow> py_exn + pyval"

type_synonym builder_fun = "pyval \<Rightarrow> pyval \<Rightarrow> string \<Rightarrow> getter \<Rightarrow> py_exn + pydict"

definition DEFAULT_FIELDNAMES :: "string list" where
  "DEFAULT_FIELDNAMES =
     [''GEO_ID'', ''NAME'', ''line_no'', ''label'',
      ''total'', ''total_moe'', ''total_pct'', ''total_pct_moe'',
      ''male'', ''male_moe'', ''male_pct'', ''male_pct_moe'',
      ''female'', ''female_moe'', ''female_pct'', ''female_pct_moe'']"

definition default_builder :: builder_fun where
  "default_builder geo_id name line getv =
     dict_display
       [(''GEO_ID'', Inr geo_id),
        (''NAME'', Inr name),
        (''line_no'', Inr (PStr line)),
        (''total'', getv ''01'' ''E'' line),
        (''total_moe'', getv ''01'' ''M'' line),
        (''total_pct'', getv ''02'' ''E'' line),
        (''total_pct_moe'', getv ''02'' ''M'' line),
        (''male'', getv ''03'' ''E'' line),
        (''male_moe'', getv ''03'' ''M'' line),
        (''male_pct'', getv ''04'' ''E'' line),
        (''male_pct_moe'', getv ''04'' ''M'' line),
        (''female'', getv ''05'' ''E'' line),
        (''female_moe'', getv ''05'' ''M'' line),
        (''female_pct'', getv ''06'' ''E'' line),
        (''female_pct_moe'', getv ''06'' ''M'' line)]"

record schema =
  fieldnames :: "string list"
  builder :: builder_fun

definition S1701_schema :: schema where
  "S1701_schema =
     \<lparr>fieldnames =
        [''GEO_ID'', ''NAME'', ''line_no'', ''label'',
         ''total'', ''total_moe'',
         ''below_pl'', ''below_pl_moe'',
         ''below_pl_pct'', ''below_pl_pct_moe''],
      builder = (\<lambda>geo_id name line getv.
        dict_display
          [(''GEO_ID'', Inr geo_id),
           (''NAME'', Inr name),
           (''line_no'', Inr (PStr line)),
           (''total'', getv ''01'' ''E'' line),
           (''total_moe'', getv ''01'' ''M'' line),
           (''below_pl'', getv ''02'' ''E'' line),
           (''below_pl_moe'', getv ''02'' ''M'' line),
           (''below_pl_pct'', getv ''03'' ''E'' line),
           (''below_pl_pct_moe'', getv ''03'' ''M'' line)])\<rparr>"

definition S1901_schema :: schema where
  "S1901_schema =
     \<lparr>fieldnames =
        [''GEO_ID'', ''NAME'', ''line_no'', ''label'',
         ''households'', ''households_moe'',
         ''families'', ''families_moe'',
         ''mc_families'', ''mc_families_moe'',
         ''nf_households'', ''nf_households_moe''],
      builder = (\<lambda>geo_id name line getv.
        dict_display
          [(''GEO_ID'', Inr geo_id),
           (''NAME'', Inr name),
           (''line_no'', Inr (PStr line)),
           (''households'', getv ''01'' ''E'' line),
           (''households_moe'', getv ''01'' ''M'' line),
           (''families'', getv ''02'' ''E'' line),
           (''families_moe'', getv ''02'' ''M'' line),
           (''mc_families'', getv ''03'' ''E'' line),
           (''mc_families_moe'', getv ''03'' ''M'' line),
           (''nf_households'', getv ''04'' ''E'' line),
           (''nf_households_moe'', getv ''04'' ''M'' line)])\<rparr>"

definition S2301_schema :: schema where
  "S2301_schema =
     \<lparr>fieldnames =
        [''GEO_ID'', ''NAME'', ''line_no'', ''label'',
         ''total'', ''total_moe'',
         ''lfp_rate'', ''lfp_rate_moe'',
         ''ep_ratio'', ''ep_ratio_moe'',
         ''unemployment_rate'', ''unemployment_rate_moe''],
      builder = (\<lambda>geo_id name line getv.
        dict_display
          [(''GEO_ID'', Inr geo_id),
           (''NAME'', Inr name),
           (''line_no'', Inr (PStr line)),
           (''total'', getv ''01'' ''E'' line),
           (''total_moe'', getv ''01'' ''M'' line),
           (''lfp_rate'', getv ''02'' ''E'' line),
           (''lfp_rate_moe'', getv ''02'' ''M'' line),
           (''ep_ratio'', getv ''03'' ''E'' line),
           (''ep_ratio_moe'', getv ''03'' ''M'' line),
           (''unemployment_rate'', getv ''04'' ''E'' line),
           (''unemployment_rate_moe'', getv ''04'' ''M'' line)])\<rparr>"

definition S2502_schema :: schema where
  "S2502_schema =
     \<lparr>fieldnames =
        [''GEO_ID'', ''NAME'', ''line_no'', ''label'',
         ''oc_units'', ''oc_units_moe'',
         ''oc_units_pct'', ''oc_units_pct_moe'',
         ''ooh_units'', ''ooh_units_moe'',
         ''ooh_units_pct'', ''ooh_units_pct_moe'',
         ''roh_units'', ''roh_units_moe'',
         ''roh_units_pct'', ''roh_units_pct_moe''],
      builder = (\<lambda>geo_id name line getv.
        dict_display
          [(''GEO_ID'', Inr geo_id),
           (''NAME'', Inr name),
           (''line_no'', Inr (PStr line)),
           (''oc_units'', getv ''01'' ''E'' line),
           (''oc_units_moe'', getv ''01'' ''M'' line),
           (''oc_units_pct'', getv ''02'' ''E'' line),
           (''oc_units_pct_moe'', getv ''02'' ''M'' line),
           (''ooh_units'', getv ''03'' ''E'' line),
           (''ooh_units_moe'', getv ''03'' ''M'' line),
           (''ooh_units_pct'', getv ''04'' ''E'' line),
           (''ooh_units_pct_moe'', getv ''04'' ''M'' line),
           (''roh_units'', getv ''05'' ''E'' line),
           (''roh_units_moe'', getv ''05'' ''M'' line),
           (''roh_units_pct'', getv ''06'' ''E'' line),
           (''roh_units_pct_moe'', getv ''06'' ''M'' line)])\<rparr>"

definition S2701_schema :: schema where
  "S2701_schema =
     \<lparr>fieldnames =
        [''GEO_ID'', ''NAME'', ''line_no'', ''label'', ''total'', ''total_moe'',
         ''insured'', ''insured_moe'', ''insured_pct'', ''insured_pct_moe'',
         ''uninsured'', ''uninsured_moe'', ''uninsured_pct'', ''uninsured_pct_moe''],
      builder = (\<lambda>geo_id name line getv.
        dict_display
          [(''GEO_ID'', Inr geo_id),
           (''NAME'', Inr name),
           (''line_no'', Inr (PStr line)),
           (''total'', getv ''01'' ''E'' line),
           (''total_moe'', getv ''01'' ''M'' line),
           (''insured'', getv ''02'' ''E'' line),
           (''insured_moe'', getv ''02'' ''M'' line),
           (''insured_pct'', getv ''03'' ''E'' line),
           (''insured_pct_moe'', getv ''03'' ''M'' line),
           (''uninsured'', getv ''04'' ''E'' line),
           (''uninsured_moe'', getv ''04'' ''M'' line),
           (''uninsured_pct'', getv ''05'' ''E'' line),
           (''uninsured_pct_moe'', getv ''05'' ''M'' line)])\<rparr>"

definition S2801_schema :: schema where
  "S2801_schema =
     \<lparr>fieldnames =
        [''GEO_ID'', ''NAME'', ''line_no'', ''label'',
         ''total'', ''total_moe'',
         ''total_pct'', ''total_pct_moe''],
      builder = (\<lambda>geo_id name line getv.
        dict_display
          [(''GEO_ID'', Inr geo_id),
           (''NAME'', Inr name),
           (''line_no'', Inr (PStr line)),
           (''total'', getv ''01'' ''E'' line),
           (''total_moe'', getv ''01'' ''M'' line),
           (''total_pct'', getv ''02'' ''E'' line),
           (''total_pct_moe'', getv ''02'' ''M'' line)])\<rparr>"

definition TABLE_SCHEMAS :: "(string \<times> schema) list" where
  "TABLE_SCHEMAS =
     [(''S1701'', S1701_schema),
      (''S1901'', S1901_schema),
      (''S2301'', S2301_schema),
      (''S2502'', S2502_schema),
      (''S2701'', S2701_schema),
      (''S2801'', S2801_schema)]"

section \<open>The record assembler \<^verbatim>\<open>build_records_for_row\<close>\<close>

text \<open>The closure \<^verbatim>\<open>getv\<close>, with the \<^verbatim>\<open>fieldmap\<close> and the \<^verbatim>\<open>row\<close> it captures as parameters.\<close>

definition getv :: "fieldmap \<Rightarrow> cell list \<Rightarrow> getter" where
  "getv fieldmap row grp kind line =
     (case map_of fieldmap (grp, line, kind) of
        None \<Rightarrow> Inr PNone
      | Some col \<Rightarrow> (case row_get row col of Inl err \<Rightarrow> Inl err | Inr c \<Rightarrow> Inr (clean_num c)))"

text \<open>
  \<^verbatim>\<open>keep = any((k in rec) and (rec[k] is not None) for k in rec.keys()
            if k not in ("GEO_ID", "NAME", "line_no", "label"))\<close>
\<close>

definition keep :: "pydict \<Rightarrow> bool" where
  "keep rec =
     list_ex (\<lambda>k. map_of rec k \<noteq> None \<and> map_of rec k \<noteq> Some PNone)
       (filter (\<lambda>k. k \<notin> set [''GEO_ID'', ''NAME'', ''line_no'', ''label'']) (map fst rec))"

text \<open>The loop \<^verbatim>\<open>for ln in line_nos\<close>, which appends the records it keeps.\<close>

fun build_loop ::
  "builder_fun \<Rightarrow> pyval \<Rightarrow> pyval \<Rightarrow> getter \<Rightarrow> pydict list \<Rightarrow> string list \<Rightarrow> py_exn + pydict list"
where
  "build_loop bld geo_id name gv records [] = Inr records"
| "build_loop bld geo_id name gv records (line # lns) =
     (case bld geo_id name line gv of
        Inl err \<Rightarrow> Inl err
      | Inr rec \<Rightarrow> build_loop bld geo_id name gv (if keep rec then records @ [rec] else records) lns)"

text \<open>\<^verbatim>\<open>sorted({ln for (_, ln, _) in fieldmap.keys()})\<close>: strings are compared by code points.\<close>

definition line_nos_of :: "fieldmap \<Rightarrow> string list" where
  "line_nos_of fieldmap = sort (remdups (map (\<lambda>((_, line, _), _). line) fieldmap))"

definition build_records_for_row ::
  "string \<Rightarrow> cell list \<Rightarrow> cell list \<Rightarrow> py_exn + (pydict list \<times> string list)"
where
  "build_records_for_row table headers row =
     (case row_ids headers row of
        Inl err \<Rightarrow> Inl err
      | Inr (geo_id, name) \<Rightarrow>
          (let fieldmap = parse_headers_for_table table headers;
               line_nos = line_nos_of fieldmap;
               (fnames, bld) =
                  (case map_of TABLE_SCHEMAS table of
                     Some schema \<Rightarrow> (fieldnames schema, builder schema)
                   | None \<Rightarrow> (DEFAULT_FIELDNAMES, default_builder))
           in case build_loop bld geo_id name (getv fieldmap row) [] line_nos of
                Inl err \<Rightarrow> Inl err
              | Inr records \<Rightarrow> Inr (records, fnames)))"

section \<open>The label attachment and the sort of \<^verbatim>\<open>main\<close>\<close>

text \<open>The dictionary returned by \<^verbatim>\<open>load_label_map_for_table\<close>: line number to label.\<close>

type_synonym label_map = "(string \<times> string) list"

text \<open>\<^verbatim>\<open>str.zfill(width)\<close>: zeros are inserted on the left, after a leading sign.\<close>

definition zfill :: "nat \<Rightarrow> string \<Rightarrow> string" where
  "zfill width s =
     (if width \<le> length s then s
      else case s of
             [] \<Rightarrow> replicate width (CHR ''0'')
           | c # t \<Rightarrow>
               if c = CHR ''+'' \<or> c = CHR ''-''
               then c # replicate (width - length s) (CHR ''0'') @ t
               else replicate (width - length s) (CHR ''0'') @ s)"

text \<open>The truth value of a Python value, and \<^verbatim>\<open>rec.get(k) or ""\<close>.\<close>

fun truthy :: "pyval \<Rightarrow> bool" where
  "truthy PNone = False"
| "truthy (PInt i) = (i \<noteq> 0)"
| "truthy (PFloat (Finite m e)) = (m \<noteq> 0)"
| "truthy (PFloat _) = True"
| "truthy (PStr s) = (s \<noteq> [])"

definition get_or_empty :: "pydict \<Rightarrow> string \<Rightarrow> pyval" where
  "get_or_empty rec k =
     (case map_of rec k of None \<Rightarrow> PStr [] | Some v \<Rightarrow> if truthy v then v else PStr [])"

text \<open>
  The body of \<^verbatim>\<open>for rec in recs\<close>:
  \<^verbatim>\<open>ln = (rec.get("line_no") or "").zfill(3); rec["label"] = label_map.get(ln, "")\<close>.
  Only a string has \<^verbatim>\<open>zfill\<close>; a number there raises \<^verbatim>\<open>AttributeError\<close>.
\<close>

definition attach_label :: "label_map \<Rightarrow> pydict \<Rightarrow> py_exn + pydict" where
  "attach_label label_map rec =
     (case get_or_empty rec ''line_no'' of
        PStr s \<Rightarrow>
          Inr (AList.update ''label''
                 (PStr (case map_of label_map (zfill 3 s) of None \<Rightarrow> [] | Some l \<Rightarrow> l)) rec)
      | _ \<Rightarrow> Inl AttributeError)"

fun attach_labels :: "label_map \<Rightarrow> pydict list \<Rightarrow> py_exn + pydict list" where
  "attach_labels label_map [] = Inr []"
| "attach_labels label_map (rec # recs) =
     (case attach_label label_map rec of
        Inl err \<Rightarrow> Inl err
      | Inr rec' \<Rightarrow>
          (case attach_labels label_map recs of
             Inl err \<Rightarrow> Inl err
           | Inr recs' \<Rightarrow> Inr (rec' # recs')))"

text \<open>
  \<^verbatim>\<open>all_records.sort(key=lambda d: (d.get("GEO_ID") or "", d.get("line_no") or ""))\<close>.
  The keys are computed first; the sort is stable and compares the pairs of strings
  lexicographically, strings by code points. The records of the assembler have a string or
  \<^verbatim>\<open>None\<close> in both fields; a key with another value, which Python cannot compare with a
  string, is a \<^verbatim>\<open>TypeError\<close> here.
\<close>

definition record_key :: "pydict \<Rightarrow> (string \<times> string) option" where
  "record_key d =
     (case (get_or_empty d ''GEO_ID'', get_or_empty d ''line_no'') of
        (PStr g, PStr l) \<Rightarrow> Some (g, l)
      | _ \<Rightarrow> None)"

definition sort_records :: "pydict list \<Rightarrow> py_exn + pydict list" where
  "sort_records recs =
     (case those (map record_key recs) of
        None \<Rightarrow> Inl TypeError
      | Some keys \<Rightarrow> Inr (map snd (sort_key fst (zip keys recs))))"

text \<open>The loop \<^verbatim>\<open>for r in rows\<close> of \<^verbatim>\<open>main\<close>, on \<^verbatim>\<open>all_records\<close> and \<^verbatim>\<open>out_fieldnames\<close>.\<close>

fun rows_loop ::
  "string \<Rightarrow> label_map \<Rightarrow> cell list \<Rightarrow> cell list list \<Rightarrow> pydict list \<times> string list option
     \<Rightarrow> py_exn + (pydict list \<times> string list option)"
where
  "rows_loop table label_map headers [] acc = Inr acc"
| "rows_loop table label_map headers (r # rows) (all_records, out_fieldnames) =
     (case build_records_for_row table headers r of
        Inl err \<Rightarrow> Inl err
      | Inr (recs, fnames) \<Rightarrow>
          (case attach_labels label_map recs of
             Inl err \<Rightarrow> Inl err
           | Inr recs' \<Rightarrow>
               rows_loop table label_map headers rows
                 (all_records @ recs',
                  (case out_fieldnames of None \<Rightarrow> Some fnames | Some f \<Rightarrow> Some f))))"

text \<open>
  The part of the body of \<^verbatim>\<open>for tract in args.tracts\<close> between the fetch and the write: from
  the fetched \<^verbatim>\<open>data\<close> to the sorted records and the column names.
\<close>

definition process_data ::
  "string \<Rightarrow> label_map \<Rightarrow> cell list list \<Rightarrow> py_exn + (pydict list \<times> string list)"
where
  "process_data table label_map data =
     (case data of
        [] \<Rightarrow> Inl IndexError
      | headers # rows \<Rightarrow>
          (case rows_loop table label_map headers rows ([], None) of
             Inl err \<Rightarrow> Inl err
           | Inr (all_records, out_fieldnames) \<Rightarrow>
               (let out_fieldnames' =
                      (case out_fieldnames of
                         Some f \<Rightarrow> f
                       | None \<Rightarrow>
                           (case map_of TABLE_SCHEMAS table of
                              Some schema \<Rightarrow> fieldnames schema
                            | None \<Rightarrow> DEFAULT_FIELDNAMES))
                in case sort_records all_records of
                     Inl err \<Rightarrow> Inl err
                   | Inr sorted_records \<Rightarrow> Inr (sorted_records, out_fieldnames'))))"

section \<open>The fetch with retries \<^verbatim>\<open>fetch_group_subject\<close>\<close>

text \<open>
  The network is a function from the request and the number of requests sent before it to
  what \<^verbatim>\<open>session.get\<close> meets: no response (a \<^verbatim>\<open>requests\<close> exception), or a status code and a
  body. A body is no JSON, JSON of another shape than a list whose first element is a list, or
  a list of rows. The effects of the program are kept in a \<open>world\<close>: the number of requests
  sent, the arguments of \<^verbatim>\<open>time.sleep\<close>, the files written and the lines printed.
\<close>

record request =
  url :: string
  params :: "(string \<times> string) list"

datatype body = NotJson | OtherJson | Table "cell list list"

datatype http_result = NoResponse | Response nat body

type_synonym server = "request \<Rightarrow> nat \<Rightarrow> http_result"

record world =
  gets :: nat
  slept :: "pyfloat list"
  files :: "(string \<times> string list \<times> pyval option list list) list"
  printed :: "(string \<times> string \<times> string \<times> nat) list"

definition API_BASE :: string where
  "API_BASE = ''https://api.census.gov/data''"

text \<open>
  The body of the \<^verbatim>\<open>try\<close>: \<^verbatim>\<open>session.get\<close>, \<^verbatim>\<open>raise_for_status\<close> (an error for a status from
  400 to 599), \<^verbatim>\<open>resp.json()\<close> and the test of the shape of \<^verbatim>\<open>data\<close>.
\<close>

definition try_get :: "server \<Rightarrow> request \<Rightarrow> world \<Rightarrow> (py_exn + cell list list) \<times> world" where
  "try_get srv req w =
     ((case srv req (gets w) of
         NoResponse \<Rightarrow> Inl RequestException
       | Response status b \<Rightarrow>
           if 400 \<le> status \<and> status < 600 then Inl (HTTPError status)
           else (case b of
                   NotJson \<Rightarrow> Inl ValueError
                 | OtherJson \<Rightarrow> Inl ValueError
                 | Table data \<Rightarrow> if data = [] then Inl ValueError else Inr data)),
      w\<lparr>gets := Suc (gets w)\<rparr>)"

text \<open>
  \<^verbatim>\<open>backoff * (attempt + 1)\<close>: the product of a float and a positive integer, rounded to a
  float.
\<close>

fun float_times :: "pyfloat \<Rightarrow> nat \<Rightarrow> pyfloat" where
  "float_times (Finite m e) k =
     (if 0 \<le> e then binary64 (m < 0) (\<bar>m\<bar> * int k * 2 ^ nat e) 1
      else binary64 (m < 0) (\<bar>m\<bar> * int k) (2 ^ nat (- e)))"
| "float_times x k = x"

text \<open>
  \<^verbatim>\<open>time.sleep(d)\<close> raises \<^verbatim>\<open>ValueError\<close> for a negative delay or a NaN and \<^verbatim>\<open>OverflowError\<close>
  for an infinite one.
\<close>

fun time_sleep :: "pyfloat \<Rightarrow> world \<Rightarrow> py_exn + world" where
  "time_sleep (Finite m e) w =
     (if m < 0 then Inl ValueError else Inr (w\<lparr>slept := slept w @ [Finite m e]\<rparr>))"
| "time_sleep NaN w = Inl ValueError"
| "time_sleep PosInf w = Inl OverflowError"
| "time_sleep NegInf w = Inl OverflowError"

text \<open>
  The loop \<^verbatim>\<open>for attempt in range(retries)\<close> and the \<^verbatim>\<open>raise RuntimeError\<close> after it. An
  exception of \<^verbatim>\<open>time.sleep\<close> is raised inside the handler and escapes.
\<close>

fun fetch_loop ::
  "server \<Rightarrow> request \<Rightarrow> string \<Rightarrow> string \<Rightarrow> pyfloat \<Rightarrow> nat list \<Rightarrow> py_exn option \<Rightarrow> world
     \<Rightarrow> (py_exn + cell list list) \<times> world"
where
  "fetch_loop srv req table tract backoff [] last_err w =
     (Inl (RuntimeError table tract last_err), w)"
| "fetch_loop srv req table tract backoff (attempt # attempts) last_err w =
     (case try_get srv req w of
        (Inr data, w1) \<Rightarrow> (Inr data, w1)
      | (Inl err, w1) \<Rightarrow>
          (case time_sleep (float_times backoff (attempt + 1)) w1 of
             Inl err' \<Rightarrow> (Inl err', w1)
           | Inr w2 \<Rightarrow> fetch_loop srv req table tract backoff attempts (Some err) w2))"

definition fetch_group_subject ::
  "server \<Rightarrow> string \<Rightarrow> string \<Rightarrow> string \<Rightarrow> string \<Rightarrow> nat \<Rightarrow> pyfloat \<Rightarrow> world
     \<Rightarrow> (py_exn + cell list list) \<times> world"
where
  "fetch_group_subject srv year product table tract retries backoff w =
     fetch_loop srv
       \<lparr>url = API_BASE @ ''/'' @ year @ ''/acs/'' @ product @ ''/subject'',
        params = [(''get'', ''group('' @ table @ '')''), (''ucgid'', ''1400000US'' @ tract)]\<rparr>
       table tract backoff [0..<retries] None w"

text \<open>The default arguments \<^verbatim>\<open>retries: int = 3\<close> and \<^verbatim>\<open>backoff: float = 0.8\<close>.\<close>

definition default_retries :: nat where
  "default_retries = 3"

definition default_backoff :: pyfloat where
  "default_backoff = binary64 False 8 10"

section \<open>\<^verbatim>\<open>main\<close>\<close>

text \<open>\<^verbatim>\<open>write_tidy_csv\<close>: the header row and one row \<^verbatim>\<open>{k: rec.get(k) for k in fieldnames}\<close> per record.\<close>

definition write_tidy_csv :: "string \<Rightarrow> pydict list \<Rightarrow> string list \<Rightarrow> world \<Rightarrow> world" where
  "write_tidy_csv path records fnames w =
     w\<lparr>files := files w @ [(path, fnames, map (\<lambda>rec. map (map_of rec) fnames) records)]\<rparr>"

text \<open>
  The two loops of \<^verbatim>\<open>main\<close>, over the tables and over the tracts. Nothing in \<^verbatim>\<open>main\<close> catches an
  exception: the first one ends the run, and is returned with the world as it is then. The
  label maps are given by a function of the table id.
\<close>

fun tract_loop ::
  "server \<Rightarrow> string \<Rightarrow> string \<Rightarrow> string \<Rightarrow> label_map \<Rightarrow> string list \<Rightarrow> world
     \<Rightarrow> py_exn option \<times> world"
where
  "tract_loop srv year product table label_map [] w = (None, w)"
| "tract_loop srv year product table label_map (tract # tracts) w =
     (case fetch_group_subject srv year product table tract default_retries default_backoff w of
        (Inl err, w1) \<Rightarrow> (Some err, w1)
      | (Inr data, w1) \<Rightarrow>
          (case process_data table label_map data of
             Inl err \<Rightarrow> (Some err, w1)
           | Inr (all_records, out_fieldnames) \<Rightarrow>
               (let out_path = ''output/'' @ tract @ ''_'' @ table @ ''.csv'';
                    w2 = write_tidy_csv out_path all_records out_fieldnames w1;
                    w3 = w2\<lparr>printed := printed w2 @ [(table, tract, out_path, length all_records)]\<rparr>
                in tract_loop srv year product table label_map tracts w3)))"

fun table_loop ::
  "server \<Rightarrow> (string \<Rightarrow> label_map) \<Rightarrow> string \<Rightarrow> string \<Rightarrow> string list \<Rightarrow> string list \<Rightarrow> world
     \<Rightarrow> py_exn option \<times> world"
where
  "table_loop srv labels year product tracts [] w = (None, w)"
| "table_loop srv labels year product tracts (table # tables) w =
     (case tract_loop srv year product table (labels table) tracts w of
        (Some err, w1) \<Rightarrow> (Some err, w1)
      | (None, w1) \<Rightarrow> table_loop srv labels year product tracts tables w1)"

definition main ::
  "server \<Rightarrow> (string \<Rightarrow> label_map) \<Rightarrow> string \<Rightarrow> string \<Rightarrow> string list \<Rightarrow> string list \<Rightarrow> world
     \<Rightarrow> py_exn option \<times> world"
where
  "main srv labels year product tables tracts w =
     table_loop srv labels year product tracts tables w"

section \<open>Notions used to state the properties\<close>

text \<open>The truncation of a rational number towards zero.\<close>

definition trunc_rat :: "rat \<Rightarrow> int" where
  "trunc_rat q = (if 0 \<le> q then \<lfloor>q\<rfloor> else \<lceil>q\<rceil>)"

text \<open>The schema that \<^const>\<open>build_records_for_row\<close> picks for a table id.\<close>

definition default_schema :: schema where
  "default_schema = \<lparr>fieldnames = DEFAULT_FIELDNAMES, builder = default_builder\<rparr>"

definition schema_of :: "string \<Rightarrow> schema" where
  "schema_of table = (case map_of TABLE_SCHEMAS table of Some sch \<Rightarrow> sch | None \<Rightarrow> default_schema)"

text \<open>
  A record has a value: some field other than \<^verbatim>\<open>GEO_ID\<close>, \<^verbatim>\<open>NAME\<close>, \<^verbatim>\<open>line_no\<close> and \<^verbatim>\<open>label\<close> is
  present and not \<^verbatim>\<open>None\<close>.
\<close>

definition has_value :: "pydict \<Rightarrow> bool" where
  "has_value rec \<longleftrightarrow>
     (\<exists>k v. map_of rec k = Some v \<and> k \<notin> {''GEO_ID'', ''NAME'', ''line_no'', ''label''} \<and> v \<noteq> PNone)"

text \<open>What \<^const>\<open>getv\<close> returns for a coordinate when the row is long enough.\<close>

definition decoded :: "fieldmap \<Rightarrow> cell list \<Rightarrow> string \<Rightarrow> string \<Rightarrow> string \<Rightarrow> pyval" where
  "decoded fieldmap row grp kind line =
     (case map_of fieldmap (grp, line, kind) of None \<Rightarrow> PNone | Some col \<Rightarrow> clean_num (row ! col))"

text \<open>The candidate record of a line number: what the builder of the schema makes for it.\<close>

definition candidate :: "string \<Rightarrow> cell list \<Rightarrow> cell list \<Rightarrow> string \<Rightarrow> pydict" where
  "candidate table headers row line =
     (case row_ids headers row of
        Inl err \<Rightarrow> []
      | Inr (geo_id, name) \<Rightarrow>
          (case builder (schema_of table) geo_id name line
                  (getv (parse_headers_for_table table headers) row) of
             Inl err \<Rightarrow> []
           | Inr rec \<Rightarrow> rec))"

text \<open>The records of a list that carry a given line number.\<close>

definition records_for_line :: "string \<Rightarrow> pydict list \<Rightarrow> pydict list" where
  "records_for_line line recs = filter (\<lambda>rec. map_of rec ''line_no'' = Some (PStr line)) recs"

text \<open>
  The columns of a schema: its builder makes the three identifier fields and then one field
  \<open>f\<close> from \<^verbatim>\<open>getv(g, k, ln)\<close> for each \<open>(f, g, k)\<close>, and its field names are the four identifier
  names and then the names \<open>f\<close>.
\<close>

definition has_columns :: "schema \<Rightarrow> (string \<times> string \<times> string) list \<Rightarrow> bool" where
  "has_columns sch cols \<longleftrightarrow>
     (\<forall>geo_id name line gv.
        builder sch geo_id name line gv =
          dict_display
            ([(''GEO_ID'', Inr geo_id), (''NAME'', Inr name), (''line_no'', Inr (PStr line))]
             @ map (\<lambda>(f, g, k). (f, gv g k line)) cols))
     \<and> fieldnames sch = [''GEO_ID'', ''NAME'', ''line_no'', ''label''] @ map fst cols
     \<and> distinct (fieldnames sch)"

chapter \<open>Properties\<close>

section \<open>Floats: truncation, the test against \<^verbatim>\<open>1e-9\<close>, the range of \<^verbatim>\<open>float(s)\<close>\<close>

lemma eps_value: "eps = Finite 4835703278458517 (- 82)"
  by code_simp

lemma valof_neg_exp: "e < 0 \<Longrightarrow> valof (Finite m e) = of_int m / of_int (2 ^ nat (- e))"
  by (simp add: power_int_def field_simps)

lemma trunc_rat_of_int: "trunc_rat (of_int z) = z"
  by (simp add: trunc_rat_def)

lemma trunc_rat_int_pow: "trunc_rat (of_int m * 2 ^ k) = m * 2 ^ k"
  using trunc_rat_of_int [of "m * 2 ^ k"] by simp

lemma trunc_rat_div_pos:
  assumes "0 \<le> m" "0 < d"
  shows "trunc_rat (of_int m / of_int d) = m div d"
  using assms by (simp add: trunc_rat_def floor_divide_of_int_eq)

lemma trunc_rat_div_neg:
  assumes "m < 0" "0 < d"
  shows "trunc_rat (of_int m / of_int d) = - ((- m) div d)"
proof -
  have neg: "of_int m / (of_int d :: rat) < 0"
    using assms by (simp add: divide_neg_pos)
  have "\<lceil>of_int m / (of_int d :: rat)\<rceil> = - \<lfloor>of_int (- m) / (of_int d :: rat)\<rfloor>"
    by (simp add: ceiling_def)
  also have "\<dots> = - ((- m) div d)"
    by (simp only: floor_divide_of_int_eq)
  finally show ?thesis using neg by (simp add: trunc_rat_def)
qed

text \<open>\<^const>\<open>py_int\<close> is the truncation of the exact value.\<close>

lemma py_int_trunc: "py_int (Finite m e) = Inr (trunc_rat (valof (Finite m e)))"
proof (cases "0 \<le> e")
  case True
  then show ?thesis by (simp add: power_int_def trunc_rat_int_pow)
next
  case False
  then have e: "e < 0" by simp
  have d: "(0::int) < 2 ^ nat (- e)" by simp
  show ?thesis
  proof (cases "0 \<le> m")
    case True
    then show ?thesis using e trunc_rat_div_pos [OF True d]
      by (simp add: valof_neg_exp del: valof.simps)
  next
    case False
    then have "m < 0" by simp
    then show ?thesis using e trunc_rat_div_neg [OF _ d, of m]
      by (simp add: valof_neg_exp del: valof.simps)
  qed
qed

lemma powi_split: "f \<le> e \<Longrightarrow> (2::rat) powi e = of_int (2 ^ nat (e - f)) * 2 powi f"
proof -
  assume "f \<le> e"
  then have "(2::rat) powi e = 2 powi (int (nat (e - f)) + f)" by simp
  also have "\<dots> = 2 powi int (nat (e - f)) * 2 powi f"
    by (rule power_int_add) simp
  also have "(2::rat) powi int (nat (e - f)) = of_int (2 ^ nat (e - f))"
    by (simp only: power_int_of_nat of_int_power of_int_numeral)
  finally show ?thesis .
qed

lemma powi_pos: "(0::rat) < 2 powi f"
  by simp

lemma dyadic_less_iff:
  "dyadic_less a e b f \<longleftrightarrow> (of_int a * 2 powi e :: rat) < of_int b * 2 powi f"
proof (cases "f \<le> e")
  case True
  have "(of_int a * 2 powi e :: rat) = of_int (a * 2 ^ nat (e - f)) * 2 powi f"
    by (simp add: powi_split [OF True])
  then have "(of_int a * 2 powi e :: rat) < of_int b * 2 powi f
      \<longleftrightarrow> (of_int (a * 2 ^ nat (e - f)) :: rat) < of_int b"
    using powi_pos [of f] by (simp only: mult_less_cancel_right_pos)
  then show ?thesis using True by (simp only: dyadic_less_def of_int_less_iff if_True)
next
  case False
  then have fe: "e \<le> f" by simp
  have "(of_int b * 2 powi f :: rat) = of_int (b * 2 ^ nat (f - e)) * 2 powi e"
    by (simp add: powi_split [OF fe])
  then have "(of_int a * 2 powi e :: rat) < of_int b * 2 powi f
      \<longleftrightarrow> (of_int a :: rat) < of_int (b * 2 ^ nat (f - e))"
    using powi_pos [of e] by (simp only: mult_less_cancel_right_pos)
  then show ?thesis using False by (simp only: dyadic_less_def of_int_less_iff if_False)
qed

lemma frac_div:
  "0 < d \<Longrightarrow> (of_int x / of_int d - of_int (x div d) :: rat) = of_int (x mod d) / of_int d"
  by (simp add: field_simps flip: of_int_mult of_int_add)

text \<open>\<^const>\<open>frac_abs\<close> is the distance of a float from its truncation.\<close>

lemma frac_abs_value:
  "of_int (frac_abs m e) * 2 powi e = \<bar>valof (Finite m e) - of_int (trunc_rat (valof (Finite m e)))\<bar>"
proof (cases "0 \<le> e")
  case True
  then show ?thesis
    by (simp add: power_int_def trunc_rat_int_pow frac_abs_def)
next
  case False
  then have e: "e < 0" by simp
  define d :: int where "d = 2 ^ nat (- e)"
  have d: "0 < d" by (simp add: d_def)
  have pw: "(2::rat) powi e = 1 / of_int d"
    using e by (simp add: d_def power_int_def field_simps)
  have v: "valof (Finite m e) = of_int m / of_int d"
    using e by (simp add: valof_neg_exp d_def del: valof.simps)
  have fa: "frac_abs m e = \<bar>m\<bar> mod d"
    using e by (simp add: frac_abs_def d_def)
  show ?thesis
  proof (cases "0 \<le> m")
    case True
    have "of_int m / of_int d - of_int (m div d) = (of_int (m mod d) / of_int d :: rat)"
      using d by (rule frac_div)
    moreover have "(0::rat) \<le> of_int (m mod d) / of_int d"
      using d by simp
    ultimately show ?thesis
      using True d by (simp add: v fa pw trunc_rat_div_pos)
  next
    case False
    then have neg: "m < 0" by simp
    have "of_int m / of_int d - of_int (- ((- m) div d))
        = - (of_int (- m) / of_int d - of_int ((- m) div d) :: rat)"
      by simp
    also have "\<dots> = - (of_int ((- m) mod d) / of_int d :: rat)"
      using d by (simp only: frac_div)
    finally have "of_int m / of_int d - of_int (- ((- m) div d))
        = - (of_int ((- m) mod d) / of_int d :: rat)" .
    moreover have "(0::rat) \<le> of_int ((- m) mod d) / of_int d"
      using d by simp
    ultimately show ?thesis
      using neg d by (simp add: v fa pw trunc_rat_div_neg)
  qed
qed

lemma near_int_iff:
  "near_int (Finite m e) \<longleftrightarrow>
     \<bar>valof (Finite m e) - of_int (trunc_rat (valof (Finite m e)))\<bar> < valof eps"
  by (simp add: eps_value dyadic_less_iff frac_abs_value del: valof.simps) simp

lemma valof_eps_pos: "0 < valof eps"
  by (simp add: eps_value)

text \<open>
  No float with a mantissa below \<open>2\<^sup>5\<^sup>3\<close> lies between \<open>10\<^sup>-\<^sup>9\<close> and the float of \<^verbatim>\<open>1e-9\<close>, so
  on floats the test against the literal is the test against \<open>10\<^sup>-\<^sup>9\<close>.
\<close>

lemma eps_gap:
  assumes "0 \<le> r" "r < 2 ^ 53"
  shows "dyadic_less r e 4835703278458517 (- 82) \<longleftrightarrow> (of_int r * 2 powi e :: rat) < 1 / 10 ^ 9"
proof (cases "- 82 \<le> e")
  case True
  define z where "z = r * 2 ^ nat (e + 82)"
  have x: "(of_int r * 2 powi e :: rat) = of_int z / 2 ^ 82"
  proof -
    have "(2::rat) powi e = of_int (2 ^ nat (e - (- 82))) * 2 powi (- 82)"
      using True by (rule powi_split)
    then show ?thesis by (simp add: z_def power_int_minus field_simps)
  qed
  have dl: "dyadic_less r e 4835703278458517 (- 82) \<longleftrightarrow> z < 4835703278458517"
    using True by (simp add: dyadic_less_def z_def)
  have "z < 4835703278458517 \<longleftrightarrow> (of_int z :: rat) < 2 ^ 82 / 10 ^ 9"
  proof
    assume "z < 4835703278458517"
    then have "(of_int z :: rat) \<le> of_int 4835703278458516" by simp
    also have "\<dots> < 2 ^ 82 / 10 ^ 9" by simp
    finally show "(of_int z :: rat) < 2 ^ 82 / 10 ^ 9" .
  next
    assume "(of_int z :: rat) < 2 ^ 82 / 10 ^ 9"
    also have "(2 ^ 82 / 10 ^ 9 :: rat) < of_int 4835703278458517" by simp
    finally show "z < 4835703278458517" by (simp only: of_int_less_iff)
  qed
  also have "\<dots> \<longleftrightarrow> (of_int z / 2 ^ 82 :: rat) < 1 / 10 ^ 9"
    by (simp add: field_simps)
  finally show ?thesis by (simp only: dl x)
next
  case False
  then have e: "e \<le> - 83" by simp
  have "(of_int r * 2 powi e :: rat) \<le> of_int r * 2 powi (- 83)"
    using assms(1) e by (intro mult_left_mono power_int_increasing) simp_all
  also have "\<dots> < 2 ^ 53 * 2 powi (- 83)"
  proof -
    have "(of_int r :: rat) < of_int (2 ^ 53)" using assms(2) by (simp only: of_int_less_iff)
    then show ?thesis by (simp add: power_int_minus)
  qed
  finally have small: "(of_int r * 2 powi e :: rat) < 2 ^ 53 * 2 powi (- 83)" .
  have "(2 ^ 53 * 2 powi (- 83) :: rat) < 1 / 10 ^ 9" by (simp add: power_int_minus)
  with small have a: "(of_int r * 2 powi e :: rat) < 1 / 10 ^ 9" by simp
  have "(2 ^ 53 * 2 powi (- 83) :: rat) < of_int 4835703278458517 * 2 powi (- 82)"
    by (simp add: power_int_minus)
  with small have "(of_int r * 2 powi e :: rat) < of_int 4835703278458517 * 2 powi (- 82)" by simp
  then have "dyadic_less r e 4835703278458517 (- 82)" by (simp only: dyadic_less_iff)
  with a show ?thesis by simp
qed

lemma frac_abs_bounds: "0 \<le> frac_abs m e \<and> frac_abs m e \<le> \<bar>m\<bar>"
proof (cases "0 \<le> e")
  case True
  then show ?thesis by (simp add: frac_abs_def)
next
  case False
  have "\<bar>m\<bar> mod 2 ^ nat (- e) \<le> \<bar>m\<bar>" by (rule zmod_le_nonneg_dividend) simp
  then show ?thesis using False by (simp add: frac_abs_def)
qed

lemma near_int_exact:
  assumes "\<bar>m\<bar> < 2 ^ 53"
  shows "near_int (Finite m e) \<longleftrightarrow>
     \<bar>valof (Finite m e) - of_int (trunc_rat (valof (Finite m e)))\<bar> < 1 / 10 ^ 9"
proof -
  have "frac_abs m e < 2 ^ 53" using frac_abs_bounds [of m e] assms by linarith
  then have "dyadic_less (frac_abs m e) e 4835703278458517 (- 82)
      \<longleftrightarrow> (of_int (frac_abs m e) * 2 powi e :: rat) < 1 / 10 ^ 9"
    using frac_abs_bounds [of m e] by (intro eps_gap) simp_all
  then show ?thesis by (simp only: near_int.simps eps_value pyfloat.case frac_abs_value)
qed

text \<open>The bit length, the logarithm and the mantissa of the rounding.\<close>

lemma bit_length_bounds:
  "0 < n \<Longrightarrow> 1 \<le> bit_length n \<and> 2 ^ nat (bit_length n - 1) \<le> n \<and> n < 2 ^ nat (bit_length n)"
proof (induction n rule: bit_length.induct)
  case (1 n)
  show ?case
  proof (cases "n div 2 = 0")
    case True
    with "1.prems" have n1: "n = 1" by linarith
    have "bit_length 1 = 1" by (simp add: bit_length.simps [of 1] bit_length.simps [of 0])
    then show ?thesis using n1 by simp
  next
    case False
    with "1.prems" have pos: "0 < n div 2" by linarith
    from "1.IH" "1.prems" pos
    have ih: "1 \<le> bit_length (n div 2)" "2 ^ nat (bit_length (n div 2) - 1) \<le> n div 2"
      "n div 2 < 2 ^ nat (bit_length (n div 2))" by simp_all
    define b where "b = bit_length (n div 2)"
    have bl: "bit_length n = 1 + b" using "1.prems" by (simp add: bit_length.simps [of n] b_def)
    have e1: "nat (bit_length n - 1) = Suc (nat (b - 1))"
      using bl ih(1) unfolding b_def by linarith
    have e2: "nat (bit_length n) = Suc (nat b)"
      using bl ih(1) unfolding b_def by linarith
    have lo: "2 * 2 ^ nat (b - 1) \<le> n" using ih(2) unfolding b_def by linarith
    have hi: "n < 2 * 2 ^ nat b" using ih(3) unfolding b_def by linarith
    have "1 \<le> bit_length n" using bl ih(1) unfolding b_def by linarith
    moreover have "2 ^ nat (bit_length n - 1) \<le> n" unfolding e1 power_Suc using lo .
    moreover have "n < 2 ^ nat (bit_length n)" unfolding e2 power_Suc using hi .
    ultimately show ?thesis by blast
  qed
qed

lemma bit_length_powi:
  assumes "0 < n"
  shows "(2::rat) powi (bit_length n - 1) \<le> of_int n" "(of_int n :: rat) < 2 powi bit_length n"
proof -
  from bit_length_bounds [OF assms]
  have b: "1 \<le> bit_length n" "2 ^ nat (bit_length n - 1) \<le> n" "n < 2 ^ nat (bit_length n)" by simp_all
  have "(2::rat) powi (bit_length n - 1) = of_int (2 ^ nat (bit_length n - 1))"
    using b(1) by (simp add: power_int_def)
  then show "(2::rat) powi (bit_length n - 1) \<le> of_int n" using b(2) by (simp only: of_int_le_iff)
  have "(2::rat) powi (bit_length n) = of_int (2 ^ nat (bit_length n))"
    using b(1) by (simp add: power_int_def)
  then show "(of_int n :: rat) < 2 powi bit_length n" using b(3) by (simp only: of_int_less_iff)
qed

lemma floor_log2_upper:
  assumes "0 < n" "0 < d"
  shows "(of_int n :: rat) < of_int d * 2 powi (floor_log2 n d + 1)"
proof -
  define k where "k = bit_length n - bit_length d"
  show ?thesis
  proof (cases "dyadic_less n 0 d k")
    case True
    then have "(of_int n :: rat) < of_int d * 2 powi k" by (simp add: dyadic_less_iff)
    moreover have "floor_log2 n d = k - 1" using True by (simp add: floor_log2_def k_def)
    ultimately show ?thesis by simp
  next
    case False
    then have fl: "floor_log2 n d = k" by (simp add: floor_log2_def k_def)
    have "(of_int n :: rat) < 2 powi bit_length n" using assms(1) by (rule bit_length_powi)
    also have "(2::rat) powi bit_length n = 2 powi (bit_length d - 1) * 2 powi (k + 1)"
      by (simp add: k_def flip: power_int_add)
    also have "\<dots> \<le> of_int d * 2 powi (k + 1)"
      using bit_length_powi(1) [OF assms(2)] by (simp add: mult_right_mono)
    finally show ?thesis by (simp add: fl)
  qed
qed

lemma floor_log2_lower:
  assumes "0 < n" "0 < d"
  shows "of_int d * 2 powi (floor_log2 n d) \<le> (of_int n :: rat)"
proof -
  define k where "k = bit_length n - bit_length d"
  show ?thesis
  proof (cases "dyadic_less n 0 d k")
    case False
    then have "of_int d * 2 powi k \<le> (of_int n :: rat)" by (simp add: dyadic_less_iff)
    moreover have "floor_log2 n d = k" using False by (simp add: floor_log2_def k_def)
    ultimately show ?thesis by simp
  next
    case True
    then have fl: "floor_log2 n d = k - 1" by (simp add: floor_log2_def k_def)
    have "of_int d * 2 powi (k - 1) \<le> (2::rat) powi bit_length d * 2 powi (k - 1)"
      using bit_length_powi(2) [OF assms(2)] by (simp add: mult_right_mono)
    also have "\<dots> = 2 powi (bit_length n - 1)"
      by (simp add: k_def flip: power_int_add)
    also have "\<dots> \<le> of_int n" using assms(1) by (rule bit_length_powi)
    finally show ?thesis by (simp add: fl)
  qed
qed

lemma int_div_less:
  assumes "0 < den" "num < den * B"
  shows "num div den < (B::int)"
proof (rule ccontr)
  assume "\<not> num div den < B"
  then have "den * B \<le> den * (num div den)"
    using assms(1) by (simp add: mult_left_mono)
  also have "\<dots> \<le> num"
    using mult_div_mod_eq [of den num] pos_mod_sign [OF assms(1), of num] by linarith
  finally show False using assms(2) by simp
qed

lemma round_half_even_le:
  assumes "0 < den" "num < den * B"
  shows "round_half_even num den \<le> B"
  using int_div_less [OF assms] by (simp add: round_half_even_def Let_def)

lemma round_half_even_nonneg:
  assumes "0 < den" "0 \<le> num"
  shows "0 \<le> round_half_even num den"
  using assms by (simp add: round_half_even_def Let_def pos_imp_zdiv_nonneg_iff)

lemma round_binary64_mantissa:
  assumes "0 < n" "0 < d" "round_binary64 n d = Some (m, e)"
  shows "0 \<le> m \<and> m < 2 ^ 53"
proof -
  define ex where "ex = max (floor_log2 n d) (- 1022) - 52"
  define m0 where "m0 = (if 0 \<le> ex then round_half_even n (d * 2 ^ nat ex)
               else round_half_even (n * 2 ^ nat (- ex)) d)"
  have up: "(of_int n :: rat) < of_int d * 2 powi (ex + 53)"
  proof -
    have "(of_int n :: rat) < of_int d * 2 powi (floor_log2 n d + 1)"
      using assms(1,2) by (rule floor_log2_upper)
    also have "\<dots> \<le> of_int d * 2 powi (ex + 53)"
      using assms(2) by (intro mult_left_mono power_int_increasing) (simp_all add: ex_def)
    finally show ?thesis .
  qed
  have m0_le: "m0 \<le> 2 ^ 53"
  proof (cases "0 \<le> ex")
    case True
    have "dyadic_less n 0 (d * 2 ^ 53) ex"
      unfolding dyadic_less_iff using up by (simp add: power_int_add)
    then have "n < d * 2 ^ nat ex * 2 ^ 53"
      using True by (simp add: dyadic_less_def mult_ac split: if_splits)
    then show ?thesis using True assms(2)
      by (simp add: m0_def round_half_even_le)
  next
    case False
    have "dyadic_less n 0 (d * 2 ^ 53) ex"
      unfolding dyadic_less_iff using up by (simp add: power_int_add)
    then have "n * 2 ^ nat (- ex) < d * 2 ^ 53"
      using False by (simp add: dyadic_less_def mult_ac split: if_splits)
    then show ?thesis using False assms(2)
      by (simp add: m0_def round_half_even_le)
  qed
  have m0_ge: "0 \<le> m0"
    using assms(1,2) by (simp add: m0_def round_half_even_nonneg)
  have unf: "round_binary64 n d =
      (case (if m0 = 2 ^ 53 then (2 ^ 52, ex + 1) else (m0, ex)) of
         (m', ex') \<Rightarrow> if 971 < ex' then None else Some (m', ex'))"
    by (simp only: round_binary64_def Let_def m0_def ex_def)
  show ?thesis
  proof (cases "m0 = 2 ^ 53")
    case True
    then have "m = 2 ^ 52" using assms(3) unfolding unf by (simp split: if_splits)
    then show ?thesis by simp
  next
    case False
    then have "m = m0" using assms(3) unfolding unf by (simp split: if_splits)
    then show ?thesis using m0_le m0_ge False by simp
  qed
qed

lemma binary64_mantissa:
  assumes "0 \<le> n" "0 < d" "binary64 neg n d = Finite m e"
  shows "\<bar>m\<bar> < 2 ^ 53"
proof (cases "n = 0")
  case True
  then show ?thesis using assms(3) by (simp add: binary64_def)
next
  case False
  then have n: "0 < n" using assms(1) by simp
  show ?thesis
  proof (cases "round_binary64 n d")
    case None
    then show ?thesis using assms(3) False by (simp add: binary64_def split: if_splits)
  next
    case (Some p)
    obtain m' e' where p: "p = (m', e')" by (cases p)
    from round_binary64_mantissa [OF n assms(2) Some [unfolded p]]
    have "0 \<le> m'" "m' < 2 ^ 53" by simp_all
    moreover have "m = 0 \<or> m = m' \<or> m = - m'"
      using assms(3) False Some p by (simp add: binary64_def split: if_splits)
    ultimately show ?thesis by auto
  qed
qed

lemma digit_val_nonneg: "is_digit c \<Longrightarrow> 0 \<le> digit_val c"
  by (auto simp: is_digit_def digit_val_def)

lemma foldl_digits_nonneg:
  "list_all is_digit ds \<Longrightarrow> 0 \<le> acc \<Longrightarrow> 0 \<le> foldl (\<lambda>acc c. 10 * acc + digit_val c) acc ds"
proof (induction ds arbitrary: acc)
  case Nil
  then show ?case by simp
next
  case (Cons c ds)
  then have "0 \<le> 10 * acc + digit_val c" using digit_val_nonneg [of c] by simp
  with Cons show ?case by simp
qed

lemma digits_val_nonneg: "list_all is_digit ds \<Longrightarrow> 0 \<le> digits_val ds"
  by (simp add: digits_val_def foldl_digits_nonneg)

lemma takeWhile_digits: "list_all is_digit (takeWhile is_digit s)"
  by (simp add: list_all_iff) (meson set_takeWhileD)

lemma digits_val_append_nonneg:
  "list_all is_digit ds \<Longrightarrow> 0 \<le> digits_val (takeWhile is_digit s @ ds)"
  using takeWhile_digits [of s] by (simp add: digits_val_nonneg)

lemma parse_decimal_nonneg:
  assumes "parse_decimal s = Some (M, E)"
  shows "0 \<le> M"
  using assms digits_val_append_nonneg [of "[]" s] digits_val_append_nonneg [OF takeWhile_digits, of s]
  by (auto simp: parse_decimal_def Let_def split: list.splits if_splits prod.splits)

text \<open>Every finite float that \<^verbatim>\<open>float(s)\<close> returns has a mantissa of at most 53 bits.\<close>

lemma py_float_mantissa:
  assumes "py_float s = Some (Finite m e)"
  shows "\<bar>m\<bar> < 2 ^ 53"
proof -
  have pos: "\<And>neg n d. binary64 neg n d = Finite m e \<Longrightarrow> 0 \<le> n \<Longrightarrow> 0 < d
      \<Longrightarrow> \<bar>m\<bar> < 9007199254740992"
    using binary64_mantissa by simp
  from assms show ?thesis
    by (auto simp: py_float_def Let_def split: option.splits prod.splits if_splits
             dest!: parse_decimal_nonneg elim!: pos)
qed

section \<open>The value normalizer\<close>

lemma clean_num_unfold:
  assumes "strip s \<notin> set SUPPRESS_CODES" "strip s \<notin> set ANNOTATION_TOKENS"
  shows "clean_num (Some s) = (case clean_num_try (strip s) of Inl err \<Rightarrow> PNone | Inr r \<Rightarrow> r)"
  using assms by (simp add: clean_num_def Let_def)

lemma clean_num_try_finite:
  "py_float t = Some (Finite m e) \<Longrightarrow>
   clean_num_try t = Inr (if near_int (Finite m e) then PInt (trunc_rat (valof (Finite m e)))
                          else PFloat (Finite m e))"
  by (simp add: clean_num_try_def py_int_trunc del: py_int.simps valof.simps near_int.simps)

lemma annotation_not_float: "t \<in> set ANNOTATION_TOKENS \<Longrightarrow> py_float t = None"
proof -
  have "list_all (\<lambda>t. py_float t = None) ANNOTATION_TOKENS" by code_simp
  then show "t \<in> set ANNOTATION_TOKENS \<Longrightarrow> py_float t = None" by (simp add: list_all_iff)
qed

text \<open>
  Claim C3. \<^const>\<open>clean_num\<close> returns \<^verbatim>\<open>None\<close> for \<^verbatim>\<open>None\<close>, for every input whose stripped string
  is a suppression sentinel or an annotation token (the empty string, \<^verbatim>\<open>(X)\<close>, \<^verbatim>\<open>*****\<close>, \<^verbatim>\<open>-\<close>,
  \<^verbatim>\<open>**\<close>), and for every input whose stripped string \<^verbatim>\<open>float\<close> rejects. It never raises: every
  exception of the body of the \<^verbatim>\<open>try\<close> becomes \<^verbatim>\<open>None\<close>, and every result is \<^verbatim>\<open>None\<close>, an
  integer or a finite float.
\<close>

theorem clean_num_total:
  "clean_num None = PNone
   \<and> (strip s \<in> set SUPPRESS_CODES \<or> strip s \<in> set ANNOTATION_TOKENS \<longrightarrow> clean_num (Some s) = PNone)
   \<and> (py_float (strip s) = None \<longrightarrow> clean_num (Some s) = PNone)
   \<and> (\<forall>err. clean_num_try (strip s) = Inl err \<longrightarrow> clean_num (Some s) = PNone)
   \<and> (clean_num x = PNone \<or> (\<exists>i. clean_num x = PInt i) \<or> (\<exists>m e. clean_num x = PFloat (Finite m e)))
   \<and> set ANNOTATION_TOKENS = {'''', ''(X)'', ''*****'', ''-'', ''**''}"
proof (intro conjI impI allI)
  show "clean_num None = PNone" by (simp add: clean_num_def)
  show "clean_num (Some s) = PNone"
    if "strip s \<in> set SUPPRESS_CODES \<or> strip s \<in> set ANNOTATION_TOKENS"
    using that by (simp add: clean_num_def Let_def)
  show "clean_num (Some s) = PNone" if "py_float (strip s) = None"
    using that by (simp add: clean_num_def Let_def clean_num_try_def)
  show "clean_num (Some s) = PNone" if "clean_num_try (strip s) = Inl err" for err
    using that by (simp add: clean_num_def Let_def)
  show "clean_num x = PNone \<or> (\<exists>i. clean_num x = PInt i) \<or> (\<exists>m e. clean_num x = PFloat (Finite m e))"
  proof (cases x)
    case None
    then show ?thesis by (simp add: clean_num_def)
  next
    case (Some t)
    show ?thesis
    proof (cases "py_float (strip t)")
      case None
      then show ?thesis using Some by (simp add: clean_num_def Let_def clean_num_try_def)
    next
      case (Some v)
      then show ?thesis using \<open>x = Some t\<close>
        by (cases v) (simp_all add: clean_num_def Let_def clean_num_try_def del: near_int.simps)
    qed
  qed
  show "set ANNOTATION_TOKENS = {'''', ''(X)'', ''*****'', ''-'', ''**''}"
    by (simp add: ANNOTATION_TOKENS_def)
qed

text \<open>Claim C3 at four inputs: an annotation token, a sentinel, a string that is no number, and \<^verbatim>\<open>inf\<close>.\<close>

theorem clean_num_total_witness:
  "strip '' (X) '' \<in> set ANNOTATION_TOKENS \<and> clean_num (Some '' (X) '') = PNone
   \<and> strip ''-888888888.0 '' \<in> set SUPPRESS_CODES \<and> clean_num (Some ''-888888888.0 '') = PNone
   \<and> py_float (strip ''12a'') = None \<and> clean_num (Some ''12a'') = PNone
   \<and> clean_num_try (strip ''inf'') = Inl OverflowError \<and> clean_num (Some ''inf'') = PNone"
proof -
  have a: "strip '' (X) '' \<in> set ANNOTATION_TOKENS" by code_simp
  have b: "strip ''-888888888.0 '' \<in> set SUPPRESS_CODES" by code_simp
  have c: "py_float (strip ''12a'') = None" by code_simp
  have d: "clean_num_try (strip ''inf'') = Inl OverflowError" by code_simp
  have 1: "clean_num (Some '' (X) '') = PNone"
    by (rule clean_num_total [of "'' (X) ''", THEN conjunct2, THEN conjunct1, rule_format])
       (rule disjI2, rule a)
  have 2: "clean_num (Some ''-888888888.0 '') = PNone"
    by (rule clean_num_total [of "''-888888888.0 ''", THEN conjunct2, THEN conjunct1, rule_format])
       (rule disjI1, rule b)
  have 3: "clean_num (Some ''12a'') = PNone"
    by (rule clean_num_total [of "''12a''", THEN conjunct2, THEN conjunct2, THEN conjunct1, rule_format])
       (rule c)
  have 4: "clean_num (Some ''inf'') = PNone"
    by (rule clean_num_total [of "''inf''", THEN conjunct2, THEN conjunct2, THEN conjunct2,
          THEN conjunct1, rule_format])
       (rule d)
  from a b c d 1 2 3 4 show ?thesis by (intro conjI)
qed

text \<open>
  Claim C4 as stated fails on a numeral beyond the range of the floats: \<^verbatim>\<open>float("1e309")\<close> is
  the infinity, \<^verbatim>\<open>int\<close> of it raises \<^verbatim>\<open>OverflowError\<close>, and the result is \<^verbatim>\<open>None\<close>, neither an
  integer nor the parsed float.
\<close>

theorem clean_num_overflow_counterexample:
  "strip ''1e309'' \<notin> set SUPPRESS_CODES \<and> strip ''1e309'' \<notin> set ANNOTATION_TOKENS
   \<and> py_float (strip ''1e309'') = Some PosInf \<and> clean_num (Some ''1e309'') = PNone"
proof -
  have s: "strip ''1e309'' = ''1e309''" by code_simp
  have a: "''1e309'' \<notin> set SUPPRESS_CODES" by code_simp
  have b: "''1e309'' \<notin> set ANNOTATION_TOKENS" by code_simp
  have p: "py_float ''1e309'' = Some PosInf" by code_simp
  have "clean_num (Some ''1e309'') = PNone"
    using a b by (simp add: clean_num_unfold s clean_num_try_def p)
  with a b p show ?thesis unfolding s by (intro conjI)
qed

text \<open>
  Claim C4, amended. For a string that is no sentinel and no annotation token and that
  \<^verbatim>\<open>float\<close> accepts: when the parsed value is finite, the result is its truncation if the value
  is within \<open>10\<^sup>-\<^sup>9\<close> of the truncation, and the parsed float otherwise; when the parsed value is
  an infinity or a NaN, the result is \<^verbatim>\<open>None\<close>. So \<^verbatim>\<open>42\<close>, \<^verbatim>\<open>42.0\<close> and \<^verbatim>\<open>42.0000000001\<close> give the
  integer 42, and \<^verbatim>\<open>3.7\<close> gives the float nearest to 3.7.
\<close>

theorem clean_num_numeric:
  "(strip s \<notin> set SUPPRESS_CODES \<and> strip s \<notin> set ANNOTATION_TOKENS \<and> py_float (strip s) = Some v
      \<longrightarrow> clean_num (Some s) =
           (case v of
              Finite m e \<Rightarrow>
                if \<bar>valof v - of_int (trunc_rat (valof v))\<bar> < 1 / 10 ^ 9
                then PInt (trunc_rat (valof v)) else PFloat v
            | _ \<Rightarrow> PNone))
   \<and> clean_num (Some ''42'') = PInt 42
   \<and> clean_num (Some ''42.0'') = PInt 42
   \<and> clean_num (Some ''42.0000000001'') = PInt 42
   \<and> clean_num (Some ''3.7'') = PFloat (Finite 8331659310635418 (- 51))
   \<and> \<bar>valof (Finite 8331659310635418 (- 51)) - 37 / 10\<bar> \<le> 2 powi (- 52)"
proof (intro conjI impI)
  assume a: "strip s \<notin> set SUPPRESS_CODES \<and> strip s \<notin> set ANNOTATION_TOKENS \<and> py_float (strip s) = Some v"
  show "clean_num (Some s) =
           (case v of
              Finite m e \<Rightarrow>
                if \<bar>valof v - of_int (trunc_rat (valof v))\<bar> < 1 / 10 ^ 9
                then PInt (trunc_rat (valof v)) else PFloat v
            | _ \<Rightarrow> PNone)"
  proof (cases v)
    case (Finite m e)
    have "\<bar>m\<bar> < 2 ^ 53" using a unfolding Finite by (intro py_float_mantissa [of "strip s" m e]) simp
    then have "near_int (Finite m e) \<longleftrightarrow>
        \<bar>valof (Finite m e) - of_int (trunc_rat (valof (Finite m e)))\<bar> < 1 / 10 ^ 9"
      by (rule near_int_exact)
    then show ?thesis
      using a clean_num_try_finite [of "strip s" m e]
      by (simp add: clean_num_unfold Finite del: near_int.simps valof.simps)
  next
    case PosInf
    then show ?thesis using a by (simp add: clean_num_unfold clean_num_try_def)
  next
    case NegInf
    then show ?thesis using a by (simp add: clean_num_unfold clean_num_try_def)
  next
    case NaN
    then show ?thesis using a by (simp add: clean_num_unfold clean_num_try_def)
  qed
next
  show "clean_num (Some ''42'') = PInt 42" by code_simp
  show "clean_num (Some ''42.0'') = PInt 42" by code_simp
  show "clean_num (Some ''42.0000000001'') = PInt 42" by code_simp
  show "clean_num (Some ''3.7'') = PFloat (Finite 8331659310635418 (- 51))" by code_simp
  show "\<bar>valof (Finite 8331659310635418 (- 51)) - 37 / 10\<bar> \<le> 2 powi (- 52)"
    by (simp add: power_int_minus)
qed

text \<open>Claim C4 at \<^verbatim>\<open>42.0000000001\<close>, whose float is \<open>42 + 7.1 * 10\<^sup>-\<^sup>1\<^sup>1\<close>.\<close>

theorem clean_num_numeric_witness:
  "strip ''42.0000000001'' \<notin> set SUPPRESS_CODES \<and> strip ''42.0000000001'' \<notin> set ANNOTATION_TOKENS
   \<and> py_float (strip ''42.0000000001'') = Some (Finite 5910974510937850 (- 47))
   \<and> \<bar>valof (Finite 5910974510937850 (- 47)) - of_int 42\<bar> < 1 / 10 ^ 9
   \<and> clean_num (Some ''42.0000000001'') = PInt 42"
proof -
  have a: "strip ''42.0000000001'' \<notin> set SUPPRESS_CODES" by code_simp
  have b: "strip ''42.0000000001'' \<notin> set ANNOTATION_TOKENS" by code_simp
  have c: "py_float (strip ''42.0000000001'') = Some (Finite 5910974510937850 (- 47))" by code_simp
  have v: "valof (Finite 5910974510937850 (- 47)) = 2955487255468925 / 2 ^ 46"
    by (simp add: power_int_minus)
  have t: "trunc_rat (2955487255468925 / 2 ^ 46) = 42"
    unfolding trunc_rat_def by (simp, rule floor_unique) simp_all
  have w: "\<bar>(2955487255468925 / 2 ^ 46 :: rat) - of_int 42\<bar> < 1 / 10 ^ 9"
    by simp
  have "clean_num (Some ''42.0000000001'') =
     (case Finite 5910974510937850 (- 47) of
        Finite m e \<Rightarrow>
          if \<bar>valof (Finite 5910974510937850 (- 47))
               - of_int (trunc_rat (valof (Finite 5910974510937850 (- 47))))\<bar> < 1 / 10 ^ 9
          then PInt (trunc_rat (valof (Finite 5910974510937850 (- 47))))
          else PFloat (Finite 5910974510937850 (- 47))
      | _ \<Rightarrow> PNone)"
    by (rule clean_num_numeric [of "''42.0000000001''" "Finite 5910974510937850 (- 47)",
          THEN conjunct1, rule_format]) (intro conjI a b c)
  then have "clean_num (Some ''42.0000000001'') = PInt 42"
    unfolding pyfloat.case v t using w by (simp only: if_True)
  with a b c w show ?thesis unfolding v by (intro conjI)
qed

text \<open>
  Claim C10. The sentinels are the eight strings of \<^const>\<open>SUPPRESS_CODES\<close>. Any other string
  that \<^verbatim>\<open>float\<close> reads as one of the four sentinel numbers, such as \<^verbatim>\<open>-555555555.00\<close> or
  \<^verbatim>\<open>-5.55555555e8\<close>, gives that negative number, not \<^verbatim>\<open>None\<close>.
\<close>

theorem sentinel_other_rendering:
  "SUPPRESS_CODES =
     [''-555555555'', ''-555555555.0'', ''-888888888'', ''-888888888.0'',
      ''-666666666'', ''-666666666.0'', ''-222222222'', ''-222222222.0'']
   \<and> (strip s \<notin> set SUPPRESS_CODES \<and> py_float (strip s) = Some (Finite m e)
        \<and> valof (Finite m e) = of_int c
        \<and> c \<in> {- 555555555, - 888888888, - 666666666, - 222222222}
      \<longrightarrow> clean_num (Some s) = PInt c)
   \<and> clean_num (Some ''-555555555.00'') = PInt (- 555555555)
   \<and> clean_num (Some ''-5.55555555e8'') = PInt (- 555555555)"
proof (intro conjI impI)
  show "SUPPRESS_CODES =
     [''-555555555'', ''-555555555.0'', ''-888888888'', ''-888888888.0'',
      ''-666666666'', ''-666666666.0'', ''-222222222'', ''-222222222.0'']"
    by (simp add: SUPPRESS_CODES_def)
next
  assume h: "strip s \<notin> set SUPPRESS_CODES \<and> py_float (strip s) = Some (Finite m e)
        \<and> valof (Finite m e) = of_int c
        \<and> c \<in> {- 555555555, - 888888888, - 666666666, - 222222222}"
  then have pf: "py_float (strip s) = Some (Finite m e)" and vc: "valof (Finite m e) = of_int c"
    and ns: "strip s \<notin> set SUPPRESS_CODES" by simp_all
  have na: "strip s \<notin> set ANNOTATION_TOKENS"
    using pf annotation_not_float [of "strip s"] by auto
  have "near_int (Finite m e)"
    unfolding near_int_iff vc by (simp add: trunc_rat_of_int valof_eps_pos)
  then show "clean_num (Some s) = PInt c"
    using clean_num_try_finite [OF pf] ns na
    by (simp add: clean_num_unfold vc trunc_rat_of_int del: near_int.simps valof.simps)
next
  show "clean_num (Some ''-555555555.00'') = PInt (- 555555555)" by code_simp
  show "clean_num (Some ''-5.55555555e8'') = PInt (- 555555555)" by code_simp
qed

text \<open>Claim C10 at \<^verbatim>\<open>-555555555.00\<close>.\<close>

theorem sentinel_other_rendering_witness:
  "strip ''-555555555.00'' \<notin> set SUPPRESS_CODES
   \<and> py_float (strip ''-555555555.00'') = Some (Finite (- 4660337773117440) (- 23))
   \<and> valof (Finite (- 4660337773117440) (- 23)) = of_int (- 555555555)
   \<and> (- 555555555 :: int) \<in> {- 555555555, - 888888888, - 666666666, - 222222222}
   \<and> clean_num (Some ''-555555555.00'') = PInt (- 555555555)"
proof -
  have a: "strip ''-555555555.00'' \<notin> set SUPPRESS_CODES" by code_simp
  have b: "py_float (strip ''-555555555.00'') = Some (Finite (- 4660337773117440) (- 23))"
    by code_simp
  have c: "valof (Finite (- 4660337773117440) (- 23)) = of_int (- 555555555)"
    by (simp add: power_int_minus)
  have d: "(- 555555555 :: int) \<in> {- 555555555, - 888888888, - 666666666, - 222222222}"
    by simp
  have "clean_num (Some ''-555555555.00'') = PInt (- 555555555)"
    by (rule sentinel_other_rendering [of "''-555555555.00''" "- 4660337773117440" "- 23"
          "- 555555555", THEN conjunct2, THEN conjunct1, rule_format]) (intro conjI a b c d)
  with a b c d show ?thesis by (intro conjI)
qed

end
